theory Spec2Isabelle
  imports Complex_Main "HOL-Library.Multiset"
begin

section \<open>float64 values\<close>

text \<open>
  The prices, market capitalisations, volumes and percentages of \<^verbatim>\<open>main.go\<close> are Go
  \<^verbatim>\<open>float64\<close>. A value is a finite number, one of the two zeros, one of the two
  infinities or a NaN. \<open>Fin r\<close> is the finite value \<open>r\<close> (\<open>Fin 0\<close> is the positive
  zero) and \<open>NegZero\<close> the negative zero.

  Go never panics on float64 arithmetic: division by zero yields an infinity or NaN, and
  every ordered comparison with NaN is false. These cases are written out below.
  The rounding of an exact result to the nearest float64 is the parameter \<open>rnd\<close> of
  every operation that rounds (a division, a product, a decimal literal such as
  \<^verbatim>\<open>0.1\<close>): nothing is assumed about it, so what is proved holds for every
  rounding. Integer literals below \<open>2^53\<close> are exact and are written \<open>Fin n\<close>.
\<close>

datatype f64 = Fin real | NegZero | PInf | NInf | NaN

type_synonym rounding = "real \<Rightarrow> f64"

definition f64_is_zero :: "f64 \<Rightarrow> bool" where
  "f64_is_zero x = (x = Fin 0 \<or> x = NegZero)"

definition f64_is_inf :: "f64 \<Rightarrow> bool" where
  "f64_is_inf x = (x = PInf \<or> x = NInf)"

text \<open>The sign bit (of a value that is not NaN).\<close>

fun f64_sign :: "f64 \<Rightarrow> bool" where
  "f64_sign (Fin r) = (r < 0)"
| "f64_sign NegZero = True"
| "f64_sign PInf = False"
| "f64_sign NInf = True"
| "f64_sign NaN = False"

text \<open>The number a finite value denotes.\<close>

fun f64_val :: "f64 \<Rightarrow> real" where
  "f64_val (Fin r) = r"
| "f64_val NegZero = 0"
| "f64_val PInf = 0"
| "f64_val NInf = 0"
| "f64_val NaN = 0"

definition f64_signed_inf :: "bool \<Rightarrow> f64" where
  "f64_signed_inf negative = (if negative then NInf else PInf)"

definition f64_signed_zero :: "bool \<Rightarrow> f64" where
  "f64_signed_zero negative = (if negative then NegZero else Fin 0)"

text \<open>Go's \<^verbatim>\<open>a < b\<close> and \<^verbatim>\<open>a <= b\<close> on float64; \<^verbatim>\<open>a > b\<close> is \<open>f64_lt b a\<close>.\<close>

definition f64_lt :: "f64 \<Rightarrow> f64 \<Rightarrow> bool" where
  "f64_lt a b =
     (if a = NaN \<or> b = NaN then False
      else if a = PInf \<or> b = NInf then False
      else if a = NInf \<or> b = PInf then True
      else f64_val a < f64_val b)"

definition f64_le :: "f64 \<Rightarrow> f64 \<Rightarrow> bool" where
  "f64_le a b =
     (if a = NaN \<or> b = NaN then False
      else if a = NInf \<or> b = PInf then True
      else if a = PInf \<or> b = NInf then False
      else f64_val a \<le> f64_val b)"

definition f64_gt :: "f64 \<Rightarrow> f64 \<Rightarrow> bool" where
  "f64_gt a b = f64_lt b a"

definition f64_ge :: "f64 \<Rightarrow> f64 \<Rightarrow> bool" where
  "f64_ge a b = f64_le b a"

text \<open>Go's \<^verbatim>\<open>a / b\<close> on float64 (IEEE 754), rounding apart.\<close>

definition f64_div :: "rounding \<Rightarrow> f64 \<Rightarrow> f64 \<Rightarrow> f64" where
  "f64_div rnd a b =
     (if a = NaN \<or> b = NaN then NaN
      else if f64_is_inf a then
        (if f64_is_inf b then NaN else f64_signed_inf (f64_sign a \<noteq> f64_sign b))
      else if f64_is_inf b then f64_signed_zero (f64_sign a \<noteq> f64_sign b)
      else if f64_is_zero b then
        (if f64_is_zero a then NaN else f64_signed_inf (f64_sign a \<noteq> f64_sign b))
      else if f64_is_zero a then f64_signed_zero (f64_sign a \<noteq> f64_sign b)
      else rnd (f64_val a / f64_val b))"

text \<open>Go's \<^verbatim>\<open>a * b\<close> on float64.\<close>

definition f64_mul :: "rounding \<Rightarrow> f64 \<Rightarrow> f64 \<Rightarrow> f64" where
  "f64_mul rnd a b =
     (if a = NaN \<or> b = NaN then NaN
      else if f64_is_inf a then
        (if f64_is_zero b then NaN else f64_signed_inf (f64_sign a \<noteq> f64_sign b))
      else if f64_is_inf b then
        (if f64_is_zero a then NaN else f64_signed_inf (f64_sign a \<noteq> f64_sign b))
      else if f64_is_zero a \<or> f64_is_zero b then f64_signed_zero (f64_sign a \<noteq> f64_sign b)
      else rnd (f64_val a * f64_val b))"

section \<open>The data of \<^verbatim>\<open>main.go\<close>\<close>

text \<open>
  A \<^verbatim>\<open>time.Time\<close> is the number of nanoseconds since the epoch, a
  \<^verbatim>\<open>time.Duration\<close> a number of nanoseconds. Go's \<^verbatim>\<open>int\<close> fields are only
  compared with constants, never computed with, so they are integers.
\<close>

type_synonym time = int

definition cacheTTL :: int where
  "cacheTTL = 1 * (3600 * 1000000000)"

record CachedPrice =
  Price :: f64
  Currency :: string
  UpdatedAt :: time
  Change24h :: f64
  MarketCap :: f64
  Volume24h :: f64

record PriceResponse =
  ID :: string
  Symbol :: string
  Name :: string
  Price :: f64
  Currency :: string
  Change24h :: f64
  MarketCap :: f64
  Volume24h :: f64
  UpdatedAt :: time
  Cached :: bool

record CoinGeckoPrice =
  ID :: string
  Symbol :: string
  Name :: string
  Image :: string
  CurrentPrice :: f64
  MarketCap :: f64
  MarketCapRank :: int
  FullyDilutedValuation :: f64
  TotalVolume :: f64
  High24h :: f64
  Low24h :: f64
  PriceChange24h :: f64
  PriceChangePercentage24h :: f64
  PriceChangePercentage7d :: f64
  MarketCapChange24h :: f64
  MarketCapChangePercentage24h :: f64
  CirculatingSupply :: f64
  TotalSupply :: f64
  MaxSupply :: f64
  ATH :: f64
  ATHChangePercentage :: f64
  ATL :: f64
  ATLChangePercentage :: f64
  LastUpdated :: string

record StakingData =
  APY :: f64
  APYChange7d :: f64
  StakingRatio :: f64
  StakedTokens :: f64
  StakedTokensChange :: f64
  TVL :: f64
  TVLChange7d :: f64
  ValidatorFee :: f64
  MinStake :: f64
  UnbondingDays :: int
  ValidatorCount :: int

text \<open>
  The five scores and their total are \<^verbatim>\<open>float64\<close> in the source. Each is an integer
  literal between 0 and 25 or a sum of such literals, at most 100: float64 arithmetic on
  them is exact, and they are carried as the numbers they are.
\<close>

record ScoreData =
  MarketScore :: real
  StakingScore :: real
  SecurityScore :: real
  AdoptionScore :: real
  TechScore :: real

record MarketAsset =
  ID :: string
  Symbol :: string
  Name :: string
  Image :: string
  Price :: f64
  PriceChange24h :: f64
  PriceChange7d :: f64
  MarketCap :: f64
  MarketCapRank :: int
  Volume24h :: f64
  CirculatingSupply :: f64
  TotalSupply :: f64
  ATH :: f64
  ATHChangePercentage :: f64
  Staking :: "StakingData option"
  Score :: real
  ScoreBreakdown :: ScoreData
  UpdatedAt :: time

section \<open>\<^verbatim>\<open>calculateScore\<close>\<close>

text \<open>
  The zero value \<^verbatim>\<open>ScoreData{}\<close>, from which \<^verbatim>\<open>calculateScore\<close> starts, and the
  assignments of the five parts in the order of the source (lines 529 to 600). A nil
  \<^verbatim>\<open>staking\<close> pointer is \<open>None\<close>.
\<close>

definition ScoreData_zero :: ScoreData where
  "ScoreData_zero =
     \<lparr>MarketScore = 0, StakingScore = 0, SecurityScore = 0, AdoptionScore = 0, TechScore = 0\<rparr>"

definition calculateScore ::
  "rounding \<Rightarrow> CoinGeckoPrice \<Rightarrow> StakingData option \<Rightarrow> real \<times> ScoreData" where
  "calculateScore rnd price staking =
     (let breakdown = ScoreData_zero;
          breakdown =
            (if CoinGeckoPrice.MarketCapRank price > 0
                \<and> CoinGeckoPrice.MarketCapRank price \<le> 10
               then breakdown\<lparr>MarketScore := 25\<rparr>
             else if CoinGeckoPrice.MarketCapRank price \<le> 25
               then breakdown\<lparr>MarketScore := 22\<rparr>
             else if CoinGeckoPrice.MarketCapRank price \<le> 50
               then breakdown\<lparr>MarketScore := 18\<rparr>
             else if CoinGeckoPrice.MarketCapRank price \<le> 100
               then breakdown\<lparr>MarketScore := 14\<rparr>
             else if CoinGeckoPrice.MarketCapRank price \<le> 250
               then breakdown\<lparr>MarketScore := 10\<rparr>
             else breakdown\<lparr>MarketScore := 5\<rparr>);
          breakdown =
            (case staking of
               None \<Rightarrow> breakdown
             | Some st \<Rightarrow>
                 (let breakdown =
                        (if f64_ge (APY st) (Fin 10) then breakdown\<lparr>StakingScore := 20\<rparr>
                         else if f64_ge (APY st) (Fin 5) then breakdown\<lparr>StakingScore := 15\<rparr>
                         else if f64_ge (APY st) (Fin 2) then breakdown\<lparr>StakingScore := 10\<rparr>
                         else breakdown\<lparr>StakingScore := 5\<rparr>)
                  in if f64_ge (StakingRatio st) (Fin 50)
                       then breakdown\<lparr>StakingScore := StakingScore breakdown + 5\<rparr>
                     else breakdown));
          breakdown =
            (if f64_gt (CoinGeckoPrice.MarketCap price) (Fin 10000000000)
               then breakdown\<lparr>SecurityScore := 20\<rparr>
             else if f64_gt (CoinGeckoPrice.MarketCap price) (Fin 1000000000)
               then breakdown\<lparr>SecurityScore := 16\<rparr>
             else if f64_gt (CoinGeckoPrice.MarketCap price) (Fin 100000000)
               then breakdown\<lparr>SecurityScore := 12\<rparr>
             else breakdown\<lparr>SecurityScore := 8\<rparr>);
          volumeToMcap = f64_div rnd (TotalVolume price) (CoinGeckoPrice.MarketCap price);
          breakdown =
            (if f64_gt volumeToMcap (rnd (1 / 10)) then breakdown\<lparr>AdoptionScore := 15\<rparr>
             else if f64_gt volumeToMcap (rnd (5 / 100)) then breakdown\<lparr>AdoptionScore := 12\<rparr>
             else if f64_gt volumeToMcap (rnd (1 / 100)) then breakdown\<lparr>AdoptionScore := 9\<rparr>
             else breakdown\<lparr>AdoptionScore := 5\<rparr>);
          breakdown =
            (if f64_gt (CoinGeckoPrice.ATHChangePercentage price) (Fin (- 20))
               then breakdown\<lparr>TechScore := 15\<rparr>
             else if f64_gt (CoinGeckoPrice.ATHChangePercentage price) (Fin (- 50))
               then breakdown\<lparr>TechScore := 12\<rparr>
             else if f64_gt (CoinGeckoPrice.ATHChangePercentage price) (Fin (- 80))
               then breakdown\<lparr>TechScore := 8\<rparr>
             else breakdown\<lparr>TechScore := 4\<rparr>);
          total = MarketScore breakdown + StakingScore breakdown + SecurityScore breakdown
                  + AdoptionScore breakdown + TechScore breakdown
      in (total, breakdown))"

text \<open>The zero value of \<^verbatim>\<open>CoinGeckoPrice\<close>: what decoding an empty JSON object gives.\<close>

definition CoinGeckoPrice_zero :: CoinGeckoPrice where
  "CoinGeckoPrice_zero =
     \<lparr>CoinGeckoPrice.ID = [], Symbol = [], Name = [], Image = [], CurrentPrice = Fin 0, MarketCap = Fin 0,
      MarketCapRank = 0, FullyDilutedValuation = Fin 0, TotalVolume = Fin 0, High24h = Fin 0,
      Low24h = Fin 0, PriceChange24h = Fin 0, PriceChangePercentage24h = Fin 0,
      PriceChangePercentage7d = Fin 0, MarketCapChange24h = Fin 0,
      MarketCapChangePercentage24h = Fin 0, CirculatingSupply = Fin 0, TotalSupply = Fin 0,
      MaxSupply = Fin 0, ATH = Fin 0, ATHChangePercentage = Fin 0, ATL = Fin 0,
      ATLChangePercentage = Fin 0, LastUpdated = []\<rparr>"


section \<open>The price cache and the world around it\<close>

record MultiPriceResponse =
  Prices :: "string \<rightharpoonup> PriceResponse"
  UpdatedAt :: time

text \<open>
  \<^verbatim>\<open>PriceCache\<close>: the map from cache key to entry and the two configuration strings.
  The mutex is left out (calls are taken one at a time), the \<^verbatim>\<open>client\<close> field is
  the outside world below.
\<close>

record PriceCache =
  prices :: "string \<rightharpoonup> CachedPrice"
  apiKey :: string
  baseURL :: string

text \<open>Every \<^verbatim>\<open>return nil, err\<close> of the two fetch functions, by the place it comes from.\<close>

datatype error =
    NewRequest_error string
  | Do_error string
  | API_error int string
  | Decode_error string
  | Token_not_found string

text \<open>
  What the program cannot decide is the environment: what the clock shows at its
  \<open>k\<close>-th reading, whether a URL makes a request, what the \<open>k\<close>-th request sent
  upstream comes back with (an error of the transport, or a status code and a body) and
  how a body decodes into provider records.
\<close>

record env =
  clock :: "nat \<Rightarrow> time"
  new_request :: "string \<Rightarrow> string option"
  client_do :: "nat \<Rightarrow> string \<Rightarrow> string + (int \<times> string)"
  decode :: "string \<Rightarrow> string + CoinGeckoPrice list"

text \<open>
  The state the calls thread: the cache object, the number of clock readings taken, the
  URLs sent upstream so far and the errors written to the log.
\<close>

record world =
  pc :: PriceCache
  readings :: nat
  requests :: "string list"
  logged :: "error list"

definition time_Now :: "env \<Rightarrow> world \<Rightarrow> time \<times> world" where
  "time_Now e w = (clock e (readings w), w\<lparr>readings := Suc (readings w)\<rparr>)"

text \<open>\<^verbatim>\<open>strings.Join\<close>.\<close>

fun Join :: "string list \<Rightarrow> string \<Rightarrow> string" where
  "Join [] sep = []"
| "Join [x] sep = x"
| "Join (x # y # ys) sep = x @ sep @ Join (y # ys) sep"

subsection \<open>\<^verbatim>\<open>fetchFromCoinGecko\<close> and \<^verbatim>\<open>fetchMultipleFromCoinGecko\<close>\<close>

definition fetchFromCoinGecko ::
  "env \<Rightarrow> world \<Rightarrow> string \<Rightarrow> string \<Rightarrow> (error + CoinGeckoPrice) \<times> world" where
  "fetchFromCoinGecko e w tokenID currency =
     (let url = baseURL (pc w) @ ''/coins/markets?vs_currency='' @ currency @ ''&ids='' @ tokenID
                @ ''&order=market_cap_desc&per_page=1&page=1&sparkline=false''
      in case new_request e url of
           Some err \<Rightarrow> (Inl (NewRequest_error err), w)
         | None \<Rightarrow>
             (let w' = w\<lparr>requests := requests w @ [url]\<rparr>
              in case client_do e (length (requests w)) url of
                   Inl err \<Rightarrow> (Inl (Do_error err), w')
                 | Inr (StatusCode, body) \<Rightarrow>
                     if StatusCode \<noteq> 200 then (Inl (API_error StatusCode body), w')
                     else (case decode e body of
                             Inl err \<Rightarrow> (Inl (Decode_error err), w')
                           | Inr ps \<Rightarrow>
                               (case ps of
                                  [] \<Rightarrow> (Inl (Token_not_found tokenID), w')
                                | p # _ \<Rightarrow> (Inr p, w')))))"

definition fetchMultipleFromCoinGecko ::
  "env \<Rightarrow> world \<Rightarrow> string list \<Rightarrow> string \<Rightarrow> (error + CoinGeckoPrice list) \<times> world" where
  "fetchMultipleFromCoinGecko e w tokenIDs currency =
     (let ids = Join tokenIDs '','';
          url = baseURL (pc w) @ ''/coins/markets?vs_currency='' @ currency @ ''&ids='' @ ids
                @ ''&order=market_cap_desc&per_page=250&page=1&sparkline=false''
      in case new_request e url of
           Some err \<Rightarrow> (Inl (NewRequest_error err), w)
         | None \<Rightarrow>
             (let w' = w\<lparr>requests := requests w @ [url]\<rparr>
              in case client_do e (length (requests w)) url of
                   Inl err \<Rightarrow> (Inl (Do_error err), w')
                 | Inr (StatusCode, body) \<Rightarrow>
                     if StatusCode \<noteq> 200 then (Inl (API_error StatusCode body), w')
                     else (case decode e body of
                             Inl err \<Rightarrow> (Inl (Decode_error err), w')
                           | Inr ps \<Rightarrow> (Inr ps, w'))))"

subsection \<open>\<^verbatim>\<open>GetPrice\<close>\<close>

text \<open>
  \<^verbatim>\<open>exists && time.Since(cached.UpdatedAt) < cacheTTL\<close> reads the clock only when the
  entry exists. \<^verbatim>\<open>time.Since\<close> saturates at the ends of \<^verbatim>\<open>int64\<close>; the
  comparison with \<^verbatim>\<open>cacheTTL\<close> gives the same answer on the unbounded difference.
\<close>

definition GetPrice ::
  "env \<Rightarrow> world \<Rightarrow> string \<Rightarrow> string \<Rightarrow> (error + PriceResponse) \<times> world" where
  "GetPrice e w tokenID currency =
     (let cacheKey = tokenID @ '':'' @ currency;
          entry = prices (pc w) cacheKey;
          (fresh, w) =
            (case entry of
               None \<Rightarrow> (False, w)
             | Some cached \<Rightarrow>
                 (let (now, w) = time_Now e w
                  in (now - CachedPrice.UpdatedAt cached < cacheTTL, w)))
      in case (entry, fresh) of
           (Some cached, True) \<Rightarrow>
             (Inr \<lparr>PriceResponse.ID = tokenID, Symbol = [], Name = [],
                   Price = CachedPrice.Price cached,
                   Currency = CachedPrice.Currency cached,
                   Change24h = CachedPrice.Change24h cached,
                   MarketCap = CachedPrice.MarketCap cached,
                   Volume24h = CachedPrice.Volume24h cached,
                   UpdatedAt = CachedPrice.UpdatedAt cached,
                   Cached = True\<rparr>, w)
         | _ \<Rightarrow>
             (case fetchFromCoinGecko e w tokenID currency of
                (Inl err, w) \<Rightarrow>
                  (case entry of
                     Some cached \<Rightarrow>
                       (Inr \<lparr>PriceResponse.ID = tokenID, Symbol = [], Name = [],
                             Price = CachedPrice.Price cached,
                             Currency = CachedPrice.Currency cached,
                             Change24h = CachedPrice.Change24h cached,
                             MarketCap = CachedPrice.MarketCap cached,
                             Volume24h = CachedPrice.Volume24h cached,
                             UpdatedAt = CachedPrice.UpdatedAt cached,
                             Cached = True\<rparr>, w)
                   | None \<Rightarrow> (Inl err, w))
              | (Inr price, w) \<Rightarrow>
                  (let (t1, w) = time_Now e w;
                       w = w\<lparr>pc := (pc w)\<lparr>prices := (prices (pc w))(cacheKey \<mapsto>
                              \<lparr>CachedPrice.Price = CurrentPrice price,
                               Currency = currency,
                               UpdatedAt = t1,
                               Change24h = PriceChangePercentage24h price,
                               MarketCap = CoinGeckoPrice.MarketCap price,
                               Volume24h = TotalVolume price\<rparr>)\<rparr>\<rparr>;
                       (t2, w) = time_Now e w
                   in (Inr \<lparr>PriceResponse.ID = tokenID,
                            Symbol = CoinGeckoPrice.Symbol price,
                            Name = CoinGeckoPrice.Name price,
                            Price = CurrentPrice price,
                            Currency = currency,
                            Change24h = PriceChangePercentage24h price,
                            MarketCap = CoinGeckoPrice.MarketCap price,
                            Volume24h = TotalVolume price,
                            UpdatedAt = t2,
                            Cached = False\<rparr>, w))))"

subsection \<open>\<^verbatim>\<open>GetMultiplePrices\<close>\<close>

text \<open>
  The first loop (lines 287 to 308) goes through \<^verbatim>\<open>tokenIDs\<close> and carries the
  response map, the slice \<^verbatim>\<open>toFetch\<close> and the world.
\<close>

fun GetMultiplePrices_check ::
  "env \<Rightarrow> string \<Rightarrow> string list \<Rightarrow> (string \<rightharpoonup> PriceResponse) \<times> string list \<times> world
     \<Rightarrow> (string \<rightharpoonup> PriceResponse) \<times> string list \<times> world" where
  "GetMultiplePrices_check e currency [] acc = acc"
| "GetMultiplePrices_check e currency (tokenID # ids) (response, toFetch, w) =
     (let cacheKey = tokenID @ '':'' @ currency
      in case prices (pc w) cacheKey of
           None \<Rightarrow> GetMultiplePrices_check e currency ids (response, toFetch @ [tokenID], w)
         | Some cached \<Rightarrow>
             (let (now, w) = time_Now e w
              in if now - CachedPrice.UpdatedAt cached < cacheTTL
                 then GetMultiplePrices_check e currency ids
                        (response(tokenID \<mapsto>
                           \<lparr>PriceResponse.ID = tokenID, Symbol = [], Name = [],
                            Price = CachedPrice.Price cached,
                            Currency = CachedPrice.Currency cached,
                            Change24h = CachedPrice.Change24h cached,
                            MarketCap = CachedPrice.MarketCap cached,
                            Volume24h = CachedPrice.Volume24h cached,
                            UpdatedAt = CachedPrice.UpdatedAt cached,
                            Cached = True\<rparr>), toFetch, w)
                 else GetMultiplePrices_check e currency ids (response, toFetch @ [tokenID], w)))"

text \<open>
  The second loop (lines 316 to 342) goes through the fetched records: each is written
  to the cache under its own \<^verbatim>\<open>p.ID\<close> and put into the response map.
\<close>

fun GetMultiplePrices_store ::
  "env \<Rightarrow> string \<Rightarrow> CoinGeckoPrice list \<Rightarrow> (string \<rightharpoonup> PriceResponse) \<times> world
     \<Rightarrow> (string \<rightharpoonup> PriceResponse) \<times> world" where
  "GetMultiplePrices_store e currency [] acc = acc"
| "GetMultiplePrices_store e currency (p # ps) (response, w) =
     (let cacheKey = CoinGeckoPrice.ID p @ '':'' @ currency;
          (t1, w) = time_Now e w;
          w = w\<lparr>pc := (pc w)\<lparr>prices := (prices (pc w))(cacheKey \<mapsto>
                 \<lparr>CachedPrice.Price = CurrentPrice p,
                  Currency = currency,
                  UpdatedAt = t1,
                  Change24h = PriceChangePercentage24h p,
                  MarketCap = CoinGeckoPrice.MarketCap p,
                  Volume24h = TotalVolume p\<rparr>)\<rparr>\<rparr>;
          (t2, w) = time_Now e w
      in GetMultiplePrices_store e currency ps
           (response(CoinGeckoPrice.ID p \<mapsto>
              \<lparr>PriceResponse.ID = CoinGeckoPrice.ID p,
               Symbol = CoinGeckoPrice.Symbol p,
               Name = CoinGeckoPrice.Name p,
               Price = CurrentPrice p,
               Currency = currency,
               Change24h = PriceChangePercentage24h p,
               MarketCap = CoinGeckoPrice.MarketCap p,
               Volume24h = TotalVolume p,
               UpdatedAt = t2,
               Cached = False\<rparr>), w))"

text \<open>
  \<^verbatim>\<open>GetMultiplePrices\<close> has one \<^verbatim>\<open>return\<close>, with a nil error; a failed batch
  fetch is written to the log.
\<close>

definition GetMultiplePrices ::
  "env \<Rightarrow> world \<Rightarrow> string list \<Rightarrow> string \<Rightarrow> (error + MultiPriceResponse) \<times> world" where
  "GetMultiplePrices e w tokenIDs currency =
     (let (t0, w) = time_Now e w;
          (response, toFetch, w) = GetMultiplePrices_check e currency tokenIDs (Map.empty, [], w)
      in if length toFetch > 0
         then (case fetchMultipleFromCoinGecko e w toFetch currency of
                 (Inl err, w) \<Rightarrow>
                   (Inr \<lparr>Prices = response, UpdatedAt = t0\<rparr>, w\<lparr>logged := logged w @ [err]\<rparr>)
               | (Inr ps, w) \<Rightarrow>
                   (let (response, w) = GetMultiplePrices_store e currency ps (response, w)
                    in (Inr \<lparr>Prices = response, UpdatedAt = t0\<rparr>, w)))
         else (Inr \<lparr>Prices = response, UpdatedAt = t0\<rparr>, w))"

section \<open>\<^verbatim>\<open>handleMarkets\<close>: the asset list\<close>

text \<open>
  The table \<^verbatim>\<open>stakingDataCache\<close> (lines 145 to 188). An entry names five fields,
  the others have their zero value. The decimal literals are rounded by \<open>rnd\<close>.
\<close>

definition stakingDataCache :: "rounding \<Rightarrow> string \<rightharpoonup> StakingData" where
  "stakingDataCache rnd =
     (let entry = (\<lambda>apy ratio fee days minStake.
            \<lparr>APY = apy, APYChange7d = Fin 0, StakingRatio = ratio, StakedTokens = Fin 0,
             StakedTokensChange = Fin 0, TVL = Fin 0, TVLChange7d = Fin 0, ValidatorFee = fee,
             MinStake = minStake, UnbondingDays = days, ValidatorCount = 0\<rparr>)
      in map_of [
        (''ethereum'', entry (rnd (313 / 100)) (rnd (3046 / 100)) (Fin 0) 27 (Fin 32)),
        (''solana'', entry (rnd (615 / 100)) (rnd (6865 / 100)) (Fin 8) 3 (rnd (1 / 100))),
        (''binancecoin'', entry (rnd (501 / 100)) (rnd (1845 / 100)) (Fin 0) 7 (Fin 1)),
        (''cardano'', entry (rnd (228 / 100)) (rnd (5813 / 100)) (Fin 2) 20 (Fin 10)),
        (''avalanche-2'', entry (Fin 7) (rnd (4838 / 100)) (Fin 2) 14 (Fin 25)),
        (''polkadot'', entry (rnd (1168 / 100)) (rnd (5259 / 100)) (Fin 10) 28 (Fin 120)),
        (''cosmos'', entry (rnd (2021 / 100)) (rnd (6102 / 100)) (Fin 5) 21 (rnd (1 / 100))),
        (''near'', entry (rnd (447 / 100)) (rnd (4720 / 100)) (Fin 0) 2 (rnd (1 / 100))),
        (''aptos'', entry (Fin 7) (rnd (9673 / 100)) (Fin 0) 30 (Fin 10)),
        (''sui'', entry (rnd (175 / 100)) (rnd (7445 / 100)) (Fin 2) 0 (Fin 1)),
        (''celestia'', entry (rnd (645 / 100)) (rnd (3549 / 100)) (Fin 5) 21 (rnd (1 / 100))),
        (''injective-protocol'', entry (rnd (657 / 100)) (rnd (5571 / 100)) (Fin 5) 21 (rnd (1 / 100))),
        (''sei-network'', entry (rnd (739 / 100)) (rnd (3636 / 100)) (Fin 5) 21 (rnd (1 / 100))),
        (''the-open-network'', entry (rnd (399 / 100)) (rnd (678 / 100)) (Fin 0) 36 (Fin 10000)),
        (''hedera-hashgraph'', entry (rnd (250 / 100)) (rnd (3187 / 100)) (Fin 0) 0 (Fin 0)),
        (''filecoin'', entry (rnd (1224 / 100)) (rnd (129 / 100)) (Fin 0) 0 (Fin 0)),
        (''fantom'', entry (Fin 4) (Fin 40) (Fin 15) 7 (Fin 1)),
        (''crypto-com-chain'', entry (rnd (179 / 100)) (rnd (1344 / 100)) (Fin 0) 28 (Fin 5000)),
        (''moonbeam'', entry (rnd (5694 / 100)) (rnd (2213 / 100)) (Fin 20) 7 (Fin 50)),
        (''kava'', entry (rnd (988 / 100)) (rnd (934 / 100)) (Fin 5) 21 (rnd (1 / 100))),
        (''osmosis'', entry (rnd (195 / 100)) (rnd (3494 / 100)) (Fin 5) 14 (rnd (1 / 100))),
        (''secret'', entry (Fin 24) (rnd (4211 / 100)) (Fin 5) 21 (rnd (1 / 100))),
        (''akash-network'', entry (rnd (1074 / 100)) (rnd (3780 / 100)) (Fin 5) 21 (rnd (1 / 100))),
        (''starknet'', entry (rnd (883 / 100)) (rnd (2186 / 100)) (Fin 0) 21 (Fin 20000)),
        (''dydx-chain'', entry (rnd (274 / 100)) (rnd (2248 / 100)) (Fin 5) 30 (rnd (1 / 100))),
        (''axelar'', entry (rnd (1049 / 100)) (rnd (3631 / 100)) (Fin 5) 7 (rnd (1 / 100))),
        (''band-protocol'', entry (rnd (1845 / 100)) (rnd (5292 / 100)) (Fin 3) 21 (rnd (1 / 100))),
        (''livepeer'', entry (rnd (5105 / 100)) (rnd (5358 / 100)) (Fin 0) 7 (rnd (1 / 100))),
        (''radix'', entry (rnd (677 / 100)) (rnd (3320 / 100)) (Fin 2) 14 (rnd (1 / 100))),
        (''waves'', entry (rnd (509 / 100)) (rnd (1744 / 100)) (Fin 0) 0 (rnd (1 / 100))),
        (''casper-network'', entry (rnd (1674 / 100)) (rnd (4947 / 100)) (Fin 5) 14 (Fin 500)),
        (''tron'', entry (rnd (325 / 100)) (rnd (4648 / 100)) (Fin 0) 14 (rnd (1 / 100))),
        (''bittensor'', entry (rnd (1473 / 100)) (rnd (7622 / 100)) (Fin 18) 0 (rnd (1 / 100))),
        (''elrond-erd-2'', entry (rnd (861 / 100)) (rnd (4865 / 100)) (Fin 0) 10 (Fin 1)),
        (''iota'', entry (rnd (1155 / 100)) (rnd (5053 / 100)) (Fin 0) 0 (Fin 0)),
        (''blockstack'', entry (rnd (970 / 100)) (rnd (2958 / 100)) (Fin 0) 14 (Fin 90)),
        (''fetch-ai'', entry (rnd (546 / 100)) (rnd (2212 / 100)) (Fin 5) 21 (rnd (1 / 100))),
        (''zetachain'', entry (rnd (698 / 100)) (rnd (2752 / 100)) (Fin 5) 21 (rnd (1 / 100))),
        (''skale'', entry (Fin 10) (rnd (3237 / 100)) (Fin 0) 7 (rnd (1 / 100))),
        (''tezos'', entry (rnd (851 / 100)) (rnd (5880 / 100)) (Fin 5) 0 (Fin 1)),
        (''algorand'', entry (rnd (495 / 100)) (rnd (2252 / 100)) (Fin 0) 0 (rnd (1 / 100))),
        (''harmony'', entry (rnd (1210 / 100)) (rnd (2015 / 100)) (Fin 5) 7 (Fin 100))])"

text \<open>
  Of \<^verbatim>\<open>handleMarkets\<close>, the part after the provider's records \<^verbatim>\<open>cgPrices\<close> have
  been decoded (lines 636 to 688): the loop that builds one asset per record, in the order
  of the records, and the two nested loops that sort the assets. \<^verbatim>\<open>strings.ToUpper\<close>
  is the parameter \<open>ToUpper\<close>.
\<close>

fun handleMarkets_build ::
  "rounding \<Rightarrow> (string \<Rightarrow> string) \<Rightarrow> env \<Rightarrow> CoinGeckoPrice list \<Rightarrow> MarketAsset list \<times> world
     \<Rightarrow> MarketAsset list \<times> world" where
  "handleMarkets_build rnd ToUpper e [] acc = acc"
| "handleMarkets_build rnd ToUpper e (p # ps) (assets, w) =
     (let staking = stakingDataCache rnd (CoinGeckoPrice.ID p);
          stakingData =
            (case staking of
               None \<Rightarrow> None
             | Some st \<Rightarrow>
                 (let stakedTokens = f64_mul rnd (CoinGeckoPrice.CirculatingSupply p)
                                       (f64_div rnd (StakingRatio st) (Fin 100));
                      tvl = f64_mul rnd stakedTokens (CurrentPrice p)
                  in Some \<lparr>APY = APY st, APYChange7d = Fin 0,
                            StakingRatio = StakingRatio st,
                            StakedTokens = stakedTokens, StakedTokensChange = Fin 0,
                            TVL = tvl, TVLChange7d = Fin 0,
                            ValidatorFee = ValidatorFee st,
                            MinStake = MinStake st,
                            UnbondingDays = UnbondingDays st, ValidatorCount = 0\<rparr>));
          (score, breakdown) = calculateScore rnd p staking;
          (now, w) = time_Now e w
      in handleMarkets_build rnd ToUpper e ps
           (assets @
              [\<lparr>MarketAsset.ID = CoinGeckoPrice.ID p,
                Symbol = ToUpper (CoinGeckoPrice.Symbol p),
                Name = CoinGeckoPrice.Name p,
                Image = CoinGeckoPrice.Image p,
                Price = CurrentPrice p,
                PriceChange24h = PriceChangePercentage24h p,
                PriceChange7d = PriceChangePercentage7d p,
                MarketCap = CoinGeckoPrice.MarketCap p,
                MarketCapRank = CoinGeckoPrice.MarketCapRank p,
                Volume24h = TotalVolume p,
                CirculatingSupply = CoinGeckoPrice.CirculatingSupply p,
                TotalSupply = CoinGeckoPrice.TotalSupply p,
                ATH = CoinGeckoPrice.ATH p,
                ATHChangePercentage = CoinGeckoPrice.ATHChangePercentage p,
                Staking = stakingData,
                Score = score,
                ScoreBreakdown = breakdown,
                UpdatedAt = now\<rparr>], w))"

text \<open>
  The inner loop \<^verbatim>\<open>for j := i + 1; j < len(assets); j++\<close>, entered at \<open>j\<close>. The
  outer loop calls it with \<open>i < j\<close>, so \<open>i\<close> is in range whenever \<open>j\<close> is.
\<close>

function handleMarkets_sort_inner :: "MarketAsset list \<Rightarrow> nat \<Rightarrow> nat \<Rightarrow> MarketAsset list" where
  "handleMarkets_sort_inner assets i j =
     (if j < length assets
      then handleMarkets_sort_inner
             (if Score (assets ! j) > Score (assets ! i)
              then assets[i := assets ! j, j := assets ! i]
              else assets) i (j + 1)
      else assets)"
  by pat_completeness auto
termination
  by (relation "measure (\<lambda>(assets, i, j). length assets - j)") auto

declare handleMarkets_sort_inner.simps [simp del]

lemma length_handleMarkets_sort_inner [simp]:
  "length (handleMarkets_sort_inner assets i j) = length assets"
  by (induction assets i j rule: handleMarkets_sort_inner.induct)
     (subst handleMarkets_sort_inner.simps, simp)

text \<open>
  The outer loop \<^verbatim>\<open>for i := 0; i < len(assets)-1; i++\<close>, entered at \<open>i\<close>. The bound
  is computed on Go's signed \<^verbatim>\<open>int\<close>: for an empty slice it is \<open>- 1\<close>.
\<close>

function handleMarkets_sort :: "MarketAsset list \<Rightarrow> nat \<Rightarrow> MarketAsset list" where
  "handleMarkets_sort assets i =
     (if int i < int (length assets) - 1
      then handleMarkets_sort (handleMarkets_sort_inner assets i (i + 1)) (i + 1)
      else assets)"
  by pat_completeness auto
termination
  by (relation "measure (\<lambda>(assets, i). length assets - i)") auto

declare handleMarkets_sort.simps [simp del]

definition handleMarkets_assets ::
  "rounding \<Rightarrow> (string \<Rightarrow> string) \<Rightarrow> env \<Rightarrow> world \<Rightarrow> CoinGeckoPrice list \<Rightarrow> MarketAsset list \<times> world"
  where
  "handleMarkets_assets rnd ToUpper e w cgPrices =
     (let (assets, w) = handleMarkets_build rnd ToUpper e cgPrices ([], w)
      in (handleMarkets_sort assets 0, w))"

section \<open>Auxiliary definitions\<close>

subsection \<open>The five parts, each as a function of the fields it reads\<close>

text \<open>
  \<^verbatim>\<open>calculateScore\<close> assigns each field of the breakdown once, by a chain of
  comparisons on its own inputs. The five chains are named here to reason about one part
  at a time; \<open>calculateScore_parts\<close> proves that they give what the function computes.
\<close>

definition market_steps :: "int \<Rightarrow> real" where
  "market_steps rank =
     (if rank > 0 \<and> rank \<le> 10 then 25 else if rank \<le> 25 then 22 else if rank \<le> 50 then 18
      else if rank \<le> 100 then 14 else if rank \<le> 250 then 10 else 5)"

definition staking_steps :: "StakingData option \<Rightarrow> real" where
  "staking_steps staking =
     (case staking of
        None \<Rightarrow> 0
      | Some st \<Rightarrow>
          (if f64_ge (APY st) (Fin 10) then 20 else if f64_ge (APY st) (Fin 5) then 15
           else if f64_ge (APY st) (Fin 2) then 10 else 5)
          + (if f64_ge (StakingRatio st) (Fin 50) then 5 else 0))"

definition security_steps :: "f64 \<Rightarrow> real" where
  "security_steps cap =
     (if f64_gt cap (Fin 10000000000) then 20 else if f64_gt cap (Fin 1000000000) then 16
      else if f64_gt cap (Fin 100000000) then 12 else 8)"

definition adoption_steps :: "rounding \<Rightarrow> f64 \<Rightarrow> real" where
  "adoption_steps rnd ratio =
     (if f64_gt ratio (rnd (1 / 10)) then 15 else if f64_gt ratio (rnd (5 / 100)) then 12
      else if f64_gt ratio (rnd (1 / 100)) then 9 else 5)"

definition tech_steps :: "f64 \<Rightarrow> real" where
  "tech_steps change =
     (if f64_gt change (Fin (- 20)) then 15 else if f64_gt change (Fin (- 50)) then 12
      else if f64_gt change (Fin (- 80)) then 8 else 4)"


subsection \<open>The response built from a cache entry\<close>

text \<open>
  The literal that \<^verbatim>\<open>GetPrice\<close> (twice) and \<^verbatim>\<open>GetMultiplePrices\<close> build from a
  cache entry: it names no \<^verbatim>\<open>Symbol\<close> and no \<^verbatim>\<open>Name\<close>, which are then empty.
\<close>

definition from_cache :: "string \<Rightarrow> CachedPrice \<Rightarrow> PriceResponse" where
  "from_cache tokenID cached =
     \<lparr>PriceResponse.ID = tokenID, Symbol = [], Name = [],
      Price = CachedPrice.Price cached,
      Currency = CachedPrice.Currency cached,
      Change24h = CachedPrice.Change24h cached,
      MarketCap = CachedPrice.MarketCap cached,
      Volume24h = CachedPrice.Volume24h cached,
      UpdatedAt = CachedPrice.UpdatedAt cached,
      Cached = True\<rparr>"


text \<open>A response map in which every entry flagged \<^verbatim>\<open>Cached\<close> has no symbol and no name.\<close>

definition anonymous_when_cached :: "(string \<rightharpoonup> PriceResponse) \<Rightarrow> bool" where
  "anonymous_when_cached response =
     (\<forall>k r. response k = Some r \<and> Cached r \<longrightarrow>
        PriceResponse.Symbol r = [] \<and> PriceResponse.Name r = [])"


subsection \<open>Concrete inputs\<close>

text \<open>
  An environment whose upstream refuses every connection, with a clock that stands at two
  hours (in nanoseconds) and advances by one at each reading; a cache holding a bitcoin
  entry written 200 seconds before, and an ethereum entry written two hours before;
  three provider records as \<^verbatim>\<open>handleMarkets\<close> decodes them, and upper-casing of ASCII
  letters for \<^verbatim>\<open>strings.ToUpper\<close>.
\<close>

definition ToUpper_ascii :: "string \<Rightarrow> string" where
  "ToUpper_ascii s =
     map (\<lambda>c. let n = (of_char c :: nat) in if 97 \<le> n \<and> n \<le> 122 then char_of (n - 32) else c) s"

definition upstream_down :: env where
  "upstream_down =
     \<lparr>clock = (\<lambda>k. 7200000000000 + int k),
      new_request = (\<lambda>url. None),
      client_do = (\<lambda>k url. Inl ''connection refused''),
      decode = (\<lambda>body. Inr [])\<rparr>"

definition cached_bitcoin :: CachedPrice where
  "cached_bitcoin =
     \<lparr>CachedPrice.Price = Fin 97234, Currency = ''usd'', UpdatedAt = 7000000000000,
      Change24h = Fin 2, MarketCap = Fin 1923456789012, Volume24h = Fin 45678901234\<rparr>"

definition cached_ethereum :: CachedPrice where
  "cached_ethereum =
     \<lparr>CachedPrice.Price = Fin 3300, Currency = ''usd'', UpdatedAt = 0,
      Change24h = Fin (- 1), MarketCap = Fin 400000000000, Volume24h = Fin 20000000000\<rparr>"

definition world0 :: world where
  "world0 =
     \<lparr>pc = \<lparr>prices = [''bitcoin:usd'' \<mapsto> cached_bitcoin, ''ethereum:usd'' \<mapsto> cached_ethereum],
             apiKey = ''CG-demo-key'', baseURL = ''https://api.coingecko.com/api/v3''\<rparr>,
      readings = 0, requests = [], logged = []\<rparr>"

definition record_near :: CoinGeckoPrice where
  "record_near = CoinGeckoPrice_zero\<lparr>CoinGeckoPrice.ID := ''near'', CoinGeckoPrice.Symbol := ''near'',
     CoinGeckoPrice.MarketCapRank := 20\<rparr>"

definition record_tron :: CoinGeckoPrice where
  "record_tron = CoinGeckoPrice_zero\<lparr>CoinGeckoPrice.ID := ''tron'', CoinGeckoPrice.Symbol := ''trx'',
     CoinGeckoPrice.MarketCapRank := 21\<rparr>"

definition record_cosmos :: CoinGeckoPrice where
  "record_cosmos = CoinGeckoPrice_zero\<lparr>CoinGeckoPrice.ID := ''cosmos'', CoinGeckoPrice.Symbol := ''atom'',
     CoinGeckoPrice.MarketCapRank := 40\<rparr>"


definition record_on_thresholds :: CoinGeckoPrice where
  "record_on_thresholds =
     CoinGeckoPrice_zero\<lparr>CoinGeckoPrice.MarketCapRank := 10,
       CoinGeckoPrice.MarketCap := Fin 10000000000, TotalVolume := Fin 1000000000,
       CoinGeckoPrice.ATHChangePercentage := Fin (- 20)\<rparr>"

definition staking_on_thresholds :: StakingData where
  "staking_on_thresholds =
     \<lparr>APY = Fin 10, APYChange7d = Fin 0, StakingRatio = Fin 50, StakedTokens = Fin 0,
      StakedTokensChange = Fin 0, TVL = Fin 0, TVLChange7d = Fin 0, ValidatorFee = Fin 0,
      MinStake = Fin 0, UnbondingDays = 0, ValidatorCount = 0\<rparr>"

section \<open>The scoring engine\<close>

lemma ScoreData_assign_if:
  "(if c then b\<lparr>MarketScore := x1\<rparr> else b\<lparr>MarketScore := y1\<rparr>)
     = b\<lparr>MarketScore := (if c then x1 else y1)\<rparr>"
  "(if c then b\<lparr>StakingScore := x2\<rparr> else b\<lparr>StakingScore := y2\<rparr>)
     = b\<lparr>StakingScore := (if c then x2 else y2)\<rparr>"
  "(if c then b\<lparr>SecurityScore := x3\<rparr> else b\<lparr>SecurityScore := y3\<rparr>)
     = b\<lparr>SecurityScore := (if c then x3 else y3)\<rparr>"
  "(if c then b\<lparr>AdoptionScore := x4\<rparr> else b\<lparr>AdoptionScore := y4\<rparr>)
     = b\<lparr>AdoptionScore := (if c then x4 else y4)\<rparr>"
  "(if c then b\<lparr>TechScore := x5\<rparr> else b\<lparr>TechScore := y5\<rparr>)
     = b\<lparr>TechScore := (if c then x5 else y5)\<rparr>"
  "(if c then b\<lparr>StakingScore := x6\<rparr> else b)
     = b\<lparr>StakingScore := (if c then x6 else StakingScore b)\<rparr>"
  by simp_all

lemma calculateScore_parts:
  "calculateScore rnd price staking =
     (market_steps (CoinGeckoPrice.MarketCapRank price) + staking_steps staking
        + security_steps (CoinGeckoPrice.MarketCap price)
        + adoption_steps rnd (f64_div rnd (TotalVolume price) (CoinGeckoPrice.MarketCap price))
        + tech_steps (CoinGeckoPrice.ATHChangePercentage price),
      \<lparr>MarketScore = market_steps (CoinGeckoPrice.MarketCapRank price),
       StakingScore = staking_steps staking,
       SecurityScore = security_steps (CoinGeckoPrice.MarketCap price),
       AdoptionScore =
         adoption_steps rnd (f64_div rnd (TotalVolume price) (CoinGeckoPrice.MarketCap price)),
       TechScore = tech_steps (CoinGeckoPrice.ATHChangePercentage price)\<rparr>)"
  unfolding calculateScore_def
  apply (simp only: ScoreData_assign_if)
  apply (cases staking)
   apply (simp_all add: Let_def ScoreData_zero_def market_steps_def staking_steps_def
      security_steps_def adoption_steps_def tech_steps_def split del: if_split cong: if_cong)
  apply simp
  done

lemma market_steps_range: "5 \<le> market_steps rank \<and> market_steps rank \<le> 25"
  by (simp add: market_steps_def)

lemma staking_steps_range: "0 \<le> staking_steps staking \<and> staking_steps staking \<le> 25"
  by (simp add: staking_steps_def split: option.split)

lemma security_steps_range: "8 \<le> security_steps cap \<and> security_steps cap \<le> 20"
  by (simp add: security_steps_def)

lemma adoption_steps_range: "5 \<le> adoption_steps rnd ratio \<and> adoption_steps rnd ratio \<le> 15"
  by (simp add: adoption_steps_def)

lemma tech_steps_range: "4 \<le> tech_steps change \<and> tech_steps change \<le> 15"
  by (simp add: tech_steps_def)

lemmas f64_ops =
  f64_lt_def f64_le_def f64_gt_def f64_ge_def f64_div_def f64_mul_def f64_is_zero_def
  f64_is_inf_def f64_signed_inf_def f64_signed_zero_def

lemma f64_lt_irrefl: "\<not> f64_lt a a"
  by (simp add: f64_lt_def)

lemma f64_lt_asym: "f64_lt a b \<Longrightarrow> \<not> f64_lt b a"
  by (auto simp: f64_lt_def split: if_splits)

lemma f64_lt_trans: "f64_lt a b \<Longrightarrow> f64_lt b c \<Longrightarrow> f64_lt a c"
  by (auto simp: f64_lt_def split: if_splits)

lemma f64_div_by_zero:
  assumes "f64_is_zero b"
  shows "f64_div rnd a b =
           (if a = NaN \<or> f64_is_zero a then NaN
            else if f64_sign a = f64_sign b then PInf else NInf)"
  using assms by (auto simp: f64_ops)

subsection \<open>Total and range\<close>

text \<open>
  Claim C6. For every record and every optional staking entry, the total that
  \<^verbatim>\<open>calculateScore\<close> returns is the sum of the five fields of the breakdown it returns,
  and it lies between 22 and 100 inclusive. This holds for every input (NaN and infinite
  fields included) and for every rounding.
\<close>

theorem calculateScore_total_range:
  "fst (calculateScore rnd price staking) =
       MarketScore (snd (calculateScore rnd price staking))
     + StakingScore (snd (calculateScore rnd price staking))
     + SecurityScore (snd (calculateScore rnd price staking))
     + AdoptionScore (snd (calculateScore rnd price staking))
     + TechScore (snd (calculateScore rnd price staking))
   \<and> 22 \<le> fst (calculateScore rnd price staking)
   \<and> fst (calculateScore rnd price staking) \<le> 100"
  using market_steps_range [of "CoinGeckoPrice.MarketCapRank price"]
    staking_steps_range [of staking]
    security_steps_range [of "CoinGeckoPrice.MarketCap price"]
    adoption_steps_range
      [of rnd "f64_div rnd (TotalVolume price) (CoinGeckoPrice.MarketCap price)"]
    tech_steps_range [of "CoinGeckoPrice.ATHChangePercentage price"]
  by (simp add: calculateScore_parts)

subsection \<open>The Market part\<close>

lemma market_by_rank:
  "MarketScore (snd (calculateScore rnd price staking)) =
     (let rank = CoinGeckoPrice.MarketCapRank price
      in if rank \<le> 0 then 22
         else if rank \<le> 10 then 25 else if rank \<le> 25 then 22 else if rank \<le> 50 then 18
         else if rank \<le> 100 then 14 else if rank \<le> 250 then 10 else 5)"
  by (auto simp: calculateScore_parts market_steps_def Let_def)

text \<open>
  Claim C5. The Market part is 25 for a rank from 1 to 10, 22 up to 25, 18 up to 50,
  14 up to 100, 10 up to 250 and 5 above 250, as the claim says (\<open>market_by_rank\<close>).
  A rank of 0 or below fails the first test \<^verbatim>\<open>MarketCapRank > 0\<close> and then passes
  the second, \<^verbatim>\<open>MarketCapRank <= 25\<close>: the record with rank 0 (the zero value, what a
  missing or null \<^verbatim>\<open>market_cap_rank\<close> decodes to) gets 22, where the claim says 5.
\<close>

theorem calculateScore_rank_zero:
  "MarketScore (snd (calculateScore Fin (CoinGeckoPrice_zero\<lparr>CoinGeckoPrice.MarketCapRank := 0\<rparr>) None))
     = 22"
  by (simp add: calculateScore_parts market_steps_def CoinGeckoPrice_zero_def)

subsection \<open>A market capitalisation of zero\<close>

text \<open>
  Claim C2, as amended. \<^verbatim>\<open>calculateScore\<close> has no test for a zero market
  capitalisation: the quotient \<^verbatim>\<open>TotalVolume / MarketCap\<close> is then \<open>+Inf\<close>,
  \<open>-Inf\<close> or NaN, never a fault. For every record whose market capitalisation is a
  zero, the Adoption part is 15 when the volume is not NaN, not zero and has the sign of
  that zero (the quotient is \<open>+Inf\<close>, above every threshold), and 5 otherwise. The
  literal \<^verbatim>\<open>0.1\<close> is taken to round to a finite value.
\<close>

theorem adoption_zero_market_cap:
  assumes "f64_is_zero (CoinGeckoPrice.MarketCap price)"
      and "rnd (1 / 10) = Fin c"
  shows "AdoptionScore (snd (calculateScore rnd price staking)) =
           (if TotalVolume price \<noteq> NaN \<and> \<not> f64_is_zero (TotalVolume price)
               \<and> f64_sign (TotalVolume price) = f64_sign (CoinGeckoPrice.MarketCap price)
            then 15 else 5)"
  using assms
  by (simp add: calculateScore_parts adoption_steps_def f64_div_by_zero f64_gt_def f64_lt_def)


text \<open>
  The theorem at three records with a zero market capitalisation: a volume of 2000 over
  \<open>+0\<close> gives 15, a volume of 0 gives 5, a volume of 2000 over \<open>-0\<close> gives 5.
\<close>

theorem adoption_zero_market_cap_witness:
  "f64_is_zero (Fin 0) \<and> Fin (1 / 10) = Fin (1 / 10)
   \<and> AdoptionScore (snd (calculateScore Fin
        (CoinGeckoPrice_zero\<lparr>CoinGeckoPrice.MarketCap := Fin 0, TotalVolume := Fin 2000\<rparr>) None)) = 15
   \<and> AdoptionScore (snd (calculateScore Fin
        (CoinGeckoPrice_zero\<lparr>CoinGeckoPrice.MarketCap := Fin 0, TotalVolume := Fin 0\<rparr>) None)) = 5
   \<and> AdoptionScore (snd (calculateScore Fin
        (CoinGeckoPrice_zero\<lparr>CoinGeckoPrice.MarketCap := NegZero, TotalVolume := Fin 2000\<rparr>) None)) = 5"
  using
    adoption_zero_market_cap [of "CoinGeckoPrice_zero\<lparr>CoinGeckoPrice.MarketCap := Fin 0, TotalVolume := Fin 2000\<rparr>" Fin "1 / 10" None]
    adoption_zero_market_cap [of "CoinGeckoPrice_zero\<lparr>CoinGeckoPrice.MarketCap := Fin 0, TotalVolume := Fin 0\<rparr>" Fin "1 / 10" None]
    adoption_zero_market_cap [of "CoinGeckoPrice_zero\<lparr>CoinGeckoPrice.MarketCap := NegZero, TotalVolume := Fin 2000\<rparr>" Fin "1 / 10" None]
  by (simp add: f64_is_zero_def CoinGeckoPrice_zero_def)


text \<open>
  The claim as stated (Adoption is 5 whatever the volume) fails at a market
  capitalisation of 0 and a volume of 1.
\<close>

theorem adoption_zero_market_cap_counterexample:
  "f64_is_zero (CoinGeckoPrice.MarketCap (CoinGeckoPrice_zero\<lparr>CoinGeckoPrice.MarketCap := Fin 0, TotalVolume := Fin 1\<rparr>))
   \<and> AdoptionScore (snd (calculateScore Fin
        (CoinGeckoPrice_zero\<lparr>CoinGeckoPrice.MarketCap := Fin 0, TotalVolume := Fin 1\<rparr>) None)) = 15"
  by (simp add: calculateScore_parts adoption_steps_def CoinGeckoPrice_zero_def f64_ops)


subsection \<open>Values on a threshold\<close>

text \<open>
  Claim C7, as amended. The tests of the Market part (\<^verbatim>\<open><=\<close>) and of the Staking
  part (\<^verbatim>\<open>>=\<close>) include the threshold: a rank of 10, 25, 50, 100 or 250, a yield of
  10, 5 or 2 and a staking ratio of 50 get the score of the higher bracket. The tests of
  the Security, Adoption and Tech parts are strict (\<^verbatim>\<open>>\<close>): a market capitalisation
  of exactly 10000000000, 1000000000 or 100000000, a ratio equal to the literal
  \<^verbatim>\<open>0.1\<close>, \<^verbatim>\<open>0.05\<close> or \<^verbatim>\<open>0.01\<close> and a change of exactly -20, -50 or -80 get
  the score of the lower bracket. For the Adoption part the three literals are taken to
  round to values in their order.
\<close>

theorem calculateScore_ties:
  "((rank, m) \<in> {(10, 25), (25, 22), (50, 18), (100, 14), (250, 10)}
      \<and> CoinGeckoPrice.MarketCapRank price = rank
    \<longrightarrow> MarketScore (snd (calculateScore rnd price staking)) = m)
 \<and> ((apy, s) \<in> {(10, 20), (5, 15), (2, 10)} \<and> staking = Some st \<and> APY st = Fin apy
    \<longrightarrow> StakingScore (snd (calculateScore rnd price staking))
          = s + (if f64_ge (StakingRatio st) (Fin 50) then 5 else 0))
 \<and> (staking = Some st \<and> StakingRatio st = Fin 50
    \<longrightarrow> StakingScore (snd (calculateScore rnd price staking))
          = (if f64_ge (APY st) (Fin 10) then 20 else if f64_ge (APY st) (Fin 5) then 15
             else if f64_ge (APY st) (Fin 2) then 10 else 5) + 5)
 \<and> ((cap, sec) \<in> {(10000000000, 16), (1000000000, 12), (100000000, 8)}
      \<and> CoinGeckoPrice.MarketCap price = Fin cap
    \<longrightarrow> SecurityScore (snd (calculateScore rnd price staking)) = sec)
 \<and> ((lit, a) \<in> {(1 / 10, 12), (5 / 100, 9), (1 / 100, 5)}
      \<and> f64_div rnd (TotalVolume price) (CoinGeckoPrice.MarketCap price) = rnd lit
      \<and> f64_lt (rnd (1 / 100)) (rnd (5 / 100)) \<and> f64_lt (rnd (5 / 100)) (rnd (1 / 10))
    \<longrightarrow> AdoptionScore (snd (calculateScore rnd price staking)) = a)
 \<and> ((ath, t) \<in> {(- 20, 12), (- 50, 8), (- 80, 4)}
      \<and> CoinGeckoPrice.ATHChangePercentage price = Fin ath
    \<longrightarrow> TechScore (snd (calculateScore rnd price staking)) = t)"
proof (intro conjI impI)
  assume "(rank, m) \<in> {(10, 25), (25, 22), (50, 18), (100, 14), (250, 10)}
      \<and> CoinGeckoPrice.MarketCapRank price = rank"
  then show "MarketScore (snd (calculateScore rnd price staking)) = m"
    by (auto simp: calculateScore_parts market_steps_def)
next
  assume "(apy, s) \<in> {(10, 20), (5, 15), (2, 10)} \<and> staking = Some st \<and> APY st = Fin apy"
  then show "StakingScore (snd (calculateScore rnd price staking))
          = s + (if f64_ge (StakingRatio st) (Fin 50) then 5 else 0)"
    by (auto simp: calculateScore_parts staking_steps_def f64_ge_def f64_le_def)
next
  assume "staking = Some st \<and> StakingRatio st = Fin 50"
  then show "StakingScore (snd (calculateScore rnd price staking))
          = (if f64_ge (APY st) (Fin 10) then 20 else if f64_ge (APY st) (Fin 5) then 15
             else if f64_ge (APY st) (Fin 2) then 10 else 5) + 5"
    by (simp add: calculateScore_parts staking_steps_def f64_ge_def f64_le_def)
next
  assume "(cap, sec) \<in> {(10000000000, 16), (1000000000, 12), (100000000, 8)}
      \<and> CoinGeckoPrice.MarketCap price = Fin cap"
  then show "SecurityScore (snd (calculateScore rnd price staking)) = sec"
    by (auto simp: calculateScore_parts security_steps_def f64_gt_def f64_lt_def)
next
  assume h: "(lit, a) \<in> {(1 / 10, 12), (5 / 100, 9), (1 / 100, 5)}
      \<and> f64_div rnd (TotalVolume price) (CoinGeckoPrice.MarketCap price) = rnd lit
      \<and> f64_lt (rnd (1 / 100)) (rnd (5 / 100)) \<and> f64_lt (rnd (5 / 100)) (rnd (1 / 10))"
  then have lo: "f64_lt (rnd (1 / 100)) (rnd (5 / 100))" and hi: "f64_lt (rnd (5 / 100)) (rnd (1 / 10))"
    by simp_all
  from lo hi have far: "f64_lt (rnd (1 / 100)) (rnd (1 / 10))"
    by (rule f64_lt_trans)
  from h consider "lit = 1 / 10" "a = 12" | "lit = 5 / 100" "a = 9" | "lit = 1 / 100" "a = 5"
    by auto
  then show "AdoptionScore (snd (calculateScore rnd price staking)) = a"
  proof cases
    case 1
    with h hi show ?thesis
      by (simp add: calculateScore_parts adoption_steps_def f64_gt_def f64_lt_irrefl)
  next
    case 2
    with h lo f64_lt_asym [OF hi] show ?thesis
      by (simp add: calculateScore_parts adoption_steps_def f64_gt_def f64_lt_irrefl)
  next
    case 3
    with h f64_lt_asym [OF lo] f64_lt_asym [OF far] show ?thesis
      by (simp add: calculateScore_parts adoption_steps_def f64_gt_def f64_lt_irrefl)
  qed
next
  assume "(ath, t) \<in> {(- 20, 12), (- 50, 8), (- 80, 4)}
      \<and> CoinGeckoPrice.ATHChangePercentage price = Fin ath"
  then show "TechScore (snd (calculateScore rnd price staking)) = t"
    by (auto simp: calculateScore_parts tech_steps_def f64_gt_def f64_lt_def)
qed

text \<open>
  The theorem at a record that sits on the highest threshold of every part, including
  the claim's two examples: a market capitalisation of 10000000000 gives Security 16 and
  a ratio of 1000000000 / 10000000000 gives Adoption 12.
\<close>

theorem calculateScore_ties_witness:
  "MarketScore (snd (calculateScore Fin record_on_thresholds (Some staking_on_thresholds))) = 25
 \<and> StakingScore (snd (calculateScore Fin record_on_thresholds (Some staking_on_thresholds))) = 25
 \<and> SecurityScore (snd (calculateScore Fin record_on_thresholds (Some staking_on_thresholds))) = 16
 \<and> AdoptionScore (snd (calculateScore Fin record_on_thresholds (Some staking_on_thresholds))) = 12
 \<and> TechScore (snd (calculateScore Fin record_on_thresholds (Some staking_on_thresholds))) = 12"
  using calculateScore_ties
    [where rank = 10 and m = 25 and price = record_on_thresholds and rnd = Fin
       and staking = "Some staking_on_thresholds" and st = staking_on_thresholds
       and apy = 10 and s = 20 and cap = 10000000000 and sec = 16
       and lit = "1 / 10" and a = 12 and ath = "- 20" and t = 12]
  by (simp add: record_on_thresholds_def staking_on_thresholds_def CoinGeckoPrice_zero_def
        f64_ops)

text \<open>
  The claim as stated (a tie goes to the higher bracket at every threshold) fails at its
  own two examples: Security is 16, not 20, and Adoption is 12, not 15.
\<close>

theorem calculateScore_ties_counterexample:
  "SecurityScore (snd (calculateScore Fin
      (CoinGeckoPrice_zero\<lparr>CoinGeckoPrice.MarketCap := Fin 10000000000\<rparr>) None)) = 16
 \<and> AdoptionScore (snd (calculateScore Fin
      (CoinGeckoPrice_zero\<lparr>CoinGeckoPrice.MarketCap := Fin 1000, TotalVolume := Fin 100\<rparr>) None))
     = 12"
  by (simp add: calculateScore_parts security_steps_def adoption_steps_def
        CoinGeckoPrice_zero_def f64_ops)

subsection \<open>What the result depends on\<close>



section \<open>The resolver\<close>

lemma fetchFromCoinGecko_world:
  assumes "fetchFromCoinGecko e w tokenID currency = (r, w')"
  shows "pc w' = pc w \<and> readings w' = readings w \<and> logged w' = logged w"
  using assms
  by (auto simp: fetchFromCoinGecko_def Let_def split: option.splits sum.splits prod.splits if_splits list.splits)



subsection \<open>\<^verbatim>\<open>GetPrice\<close>\<close>

text \<open>
  Claim C4. When the cache holds an entry for \<^verbatim>\<open>tokenID:currency\<close> and the clock, read
  once, shows less than \<^verbatim>\<open>cacheTTL\<close> since the entry's \<^verbatim>\<open>UpdatedAt\<close>,
  \<^verbatim>\<open>GetPrice\<close> returns the entry's fields flagged \<^verbatim>\<open>Cached\<close>; the world it
  leaves differs in the number of clock readings only: no request was sent and the cache
  is as it was.
\<close>

theorem GetPrice_fresh:
  assumes "prices (pc w) (tokenID @ '':'' @ currency) = Some cached"
      and "clock e (readings w) - CachedPrice.UpdatedAt cached < cacheTTL"
  shows "GetPrice e w tokenID currency =
           (Inr \<lparr>PriceResponse.ID = tokenID, Symbol = [], Name = [],
                  Price = CachedPrice.Price cached,
                  Currency = CachedPrice.Currency cached,
                  Change24h = CachedPrice.Change24h cached,
                  MarketCap = CachedPrice.MarketCap cached,
                  Volume24h = CachedPrice.Volume24h cached,
                  UpdatedAt = CachedPrice.UpdatedAt cached,
                  Cached = True\<rparr>,
            w\<lparr>readings := Suc (readings w)\<rparr>)
       \<and> requests (snd (GetPrice e w tokenID currency)) = requests w
       \<and> pc (snd (GetPrice e w tokenID currency)) = pc w"
  using assms by (simp add: GetPrice_def time_Now_def)

theorem GetPrice_fresh_witness:
  "prices (pc world0) (''bitcoin'' @ '':'' @ ''usd'') = Some cached_bitcoin
 \<and> clock upstream_down (readings world0) - CachedPrice.UpdatedAt cached_bitcoin < cacheTTL
 \<and> GetPrice upstream_down world0 ''bitcoin'' ''usd'' =
      (Inr (from_cache ''bitcoin'' cached_bitcoin), world0\<lparr>readings := Suc 0\<rparr>)"
proof -
  have entry: "prices (pc world0) (''bitcoin'' @ '':'' @ ''usd'') = Some cached_bitcoin"
    by (simp add: world0_def)
  have fresh:
    "clock upstream_down (readings world0) - CachedPrice.UpdatedAt cached_bitcoin < cacheTTL"
    by (simp add: world0_def upstream_down_def cached_bitcoin_def cacheTTL_def)
  show ?thesis
    using entry fresh GetPrice_fresh [OF entry fresh]
    by (simp add: from_cache_def world0_def)
qed

text \<open>
  Claim C1. When the fetch fails, \<^verbatim>\<open>GetPrice\<close> returns the entry it found in the cache,
  stale as it is, flagged \<^verbatim>\<open>Cached\<close> and with no error; when it found no entry, it
  returns the error of the fetch. In both cases the cache is as it was before the call.
\<close>

theorem GetPrice_fetch_fails:
  "(prices (pc w) (tokenID @ '':'' @ currency) = Some cached
      \<and> \<not> clock e (readings w) - CachedPrice.UpdatedAt cached < cacheTTL
      \<and> fetchFromCoinGecko e (w\<lparr>readings := Suc (readings w)\<rparr>) tokenID currency = (Inl err, w')
    \<longrightarrow> GetPrice e w tokenID currency =
           (Inr \<lparr>PriceResponse.ID = tokenID, Symbol = [], Name = [],
                  Price = CachedPrice.Price cached,
                  Currency = CachedPrice.Currency cached,
                  Change24h = CachedPrice.Change24h cached,
                  MarketCap = CachedPrice.MarketCap cached,
                  Volume24h = CachedPrice.Volume24h cached,
                  UpdatedAt = CachedPrice.UpdatedAt cached,
                  Cached = True\<rparr>, w')
        \<and> prices (pc w') = prices (pc w))
 \<and> (prices (pc w) (tokenID @ '':'' @ currency) = None
      \<and> fetchFromCoinGecko e w tokenID currency = (Inl err, w'')
    \<longrightarrow> GetPrice e w tokenID currency = (Inl err, w'') \<and> prices (pc w'') = prices (pc w))"
  by (auto simp: GetPrice_def time_Now_def dest: fetchFromCoinGecko_world)

theorem GetPrice_fetch_fails_witness:
  "fst (GetPrice upstream_down world0 ''ethereum'' ''usd'')
     = Inr (from_cache ''ethereum'' cached_ethereum)
 \<and> fst (GetPrice upstream_down world0 ''dogecoin'' ''usd'') = Inl (Do_error ''connection refused'')
 \<and> prices (pc (snd (GetPrice upstream_down world0 ''dogecoin'' ''usd''))) = prices (pc world0)"
  using
    GetPrice_fetch_fails
      [where w = world0 and tokenID = "''ethereum''" and currency = "''usd''"
         and cached = cached_ethereum and e = upstream_down
         and err = "Do_error ''connection refused''"
         and w' = "snd (fetchFromCoinGecko upstream_down
                     (world0\<lparr>readings := Suc (readings world0)\<rparr>) ''ethereum'' ''usd'')",
       THEN conjunct1]
    GetPrice_fetch_fails
      [where w = world0 and tokenID = "''dogecoin''" and currency = "''usd''"
         and e = upstream_down and err = "Do_error ''connection refused''"
         and w'' = "snd (fetchFromCoinGecko upstream_down world0 ''dogecoin'' ''usd'')",
       THEN conjunct2]
  by (simp add: fetchFromCoinGecko_def world0_def upstream_down_def cached_ethereum_def
        cacheTTL_def from_cache_def)

subsection \<open>\<^verbatim>\<open>GetMultiplePrices\<close>\<close>

lemma check_step:
  "GetMultiplePrices_check e currency (tokenID # ids) (response, toFetch, w) =
     (case prices (pc w) (tokenID @ '':'' @ currency) of
        None \<Rightarrow> GetMultiplePrices_check e currency ids (response, toFetch @ [tokenID], w)
      | Some cached \<Rightarrow>
          if clock e (readings w) - CachedPrice.UpdatedAt cached < cacheTTL
          then GetMultiplePrices_check e currency ids
                 (response(tokenID \<mapsto> from_cache tokenID cached), toFetch,
                  w\<lparr>readings := Suc (readings w)\<rparr>)
          else GetMultiplePrices_check e currency ids
                 (response, toFetch @ [tokenID], w\<lparr>readings := Suc (readings w)\<rparr>))"
  by (simp add: time_Now_def from_cache_def split: option.split)

lemma check_world:
  "GetMultiplePrices_check e currency ids (response, toFetch, w) = (response', toFetch', w')
   \<Longrightarrow> pc w' = pc w \<and> requests w' = requests w \<and> logged w' = logged w
       \<and> readings w \<le> readings w'"
proof (induction ids arbitrary: response toFetch w)
  case Nil
  then show ?case by simp
next
  case (Cons tokenID ids)
  show ?case
  proof (cases "prices (pc w) (tokenID @ '':'' @ currency)")
    case None
    with Cons.prems Cons.IH show ?thesis
      by (simp only: check_step option.case)
  next
    case (Some cached)
    show ?thesis
    proof (cases "clock e (readings w) - CachedPrice.UpdatedAt cached < cacheTTL")
      case True
      with Some Cons.prems
      have "GetMultiplePrices_check e currency ids
                 (response(tokenID \<mapsto> from_cache tokenID cached), toFetch,
                  w\<lparr>readings := Suc (readings w)\<rparr>) = (response', toFetch', w')"
        by (simp only: check_step option.case if_True)
      from Cons.IH [OF this] show ?thesis by simp
    next
      case False
      with Some Cons.prems
      have "GetMultiplePrices_check e currency ids
                 (response, toFetch @ [tokenID], w\<lparr>readings := Suc (readings w)\<rparr>)
              = (response', toFetch', w')"
        by (simp only: check_step option.case if_False)
      from Cons.IH [OF this] show ?thesis by simp
    qed
  qed
qed


lemma check_served:
  "GetMultiplePrices_check e currency ids (response, toFetch, w) = (response', toFetch', w')
   \<Longrightarrow> response' t = Some r
   \<Longrightarrow> response t = Some r
       \<or> (t \<in> set ids
          \<and> (\<exists>cached k. prices (pc w) (t @ '':'' @ currency) = Some cached
                \<and> readings w \<le> k \<and> k < readings w'
                \<and> clock e k - CachedPrice.UpdatedAt cached < cacheTTL
                \<and> r = from_cache t cached))"
proof (induction ids arbitrary: response toFetch w)
  case Nil
  then show ?case by simp
next
  case (Cons tokenID ids)
  show ?case
  proof (cases "prices (pc w) (tokenID @ '':'' @ currency)")
    case None
    with Cons.prems
    have run: "GetMultiplePrices_check e currency ids (response, toFetch @ [tokenID], w)
                = (response', toFetch', w')"
      by (simp only: check_step option.case)
    from Cons.IH [OF run Cons.prems(2)] show ?thesis by auto
  next
    case (Some cached)
    show ?thesis
    proof (cases "clock e (readings w) - CachedPrice.UpdatedAt cached < cacheTTL")
      case True
      with Some Cons.prems
      have run: "GetMultiplePrices_check e currency ids
                 (response(tokenID \<mapsto> from_cache tokenID cached), toFetch,
                  w\<lparr>readings := Suc (readings w)\<rparr>) = (response', toFetch', w')"
        by (simp only: check_step option.case if_True)
      from check_world [OF run] have later: "Suc (readings w) \<le> readings w'" by simp
      from Cons.IH [OF run Cons.prems(2)]
      consider "(response(tokenID \<mapsto> from_cache tokenID cached)) t = Some r"
        | "t \<in> set ids" "\<exists>cached k. prices (pc w) (t @ '':'' @ currency) = Some cached
                \<and> Suc (readings w) \<le> k \<and> k < readings w'
                \<and> clock e k - CachedPrice.UpdatedAt cached < cacheTTL
                \<and> r = from_cache t cached"
        by auto
      then show ?thesis
      proof cases
        case 1
        show ?thesis
        proof (cases "t = tokenID")
          case same: True
          with 1 have "r = from_cache tokenID cached" by simp
          with same Some True later show ?thesis by auto
        next
          case False
          with 1 show ?thesis by simp
        qed
      next
        case 2
        then show ?thesis by (auto intro: Suc_leD)
      qed
    next
      case False
      with Some Cons.prems
      have run: "GetMultiplePrices_check e currency ids
                 (response, toFetch @ [tokenID], w\<lparr>readings := Suc (readings w)\<rparr>)
              = (response', toFetch', w')"
        by (simp only: check_step option.case if_False)
      from Cons.IH [OF run Cons.prems(2)] show ?thesis by (auto intro: Suc_leD)
    qed
  qed
qed




lemma GetMultiplePrices_run:
  assumes check: "GetMultiplePrices_check e currency tokenIDs
                    (Map.empty, [], w\<lparr>readings := Suc (readings w)\<rparr>) = (response, toFetch, w1)"
  shows "GetMultiplePrices e w tokenIDs currency =
           (if length toFetch > 0
            then (case fetchMultipleFromCoinGecko e w1 toFetch currency of
                    (Inl err, w2) \<Rightarrow>
                      (Inr \<lparr>Prices = response, UpdatedAt = clock e (readings w)\<rparr>,
                       w2\<lparr>logged := logged w2 @ [err]\<rparr>)
                  | (Inr ps, w2) \<Rightarrow>
                      (Inr \<lparr>Prices = fst (GetMultiplePrices_store e currency ps (response, w2)),
                            UpdatedAt = clock e (readings w)\<rparr>,
                       snd (GetMultiplePrices_store e currency ps (response, w2))))
            else (Inr \<lparr>Prices = response, UpdatedAt = clock e (readings w)\<rparr>, w1))"
  using check
  by (simp add: GetMultiplePrices_def time_Now_def split: prod.splits sum.splits)




subsection \<open>Responses served from the cache\<close>

lemma store_anonymous:
  "anonymous_when_cached response
   \<Longrightarrow> anonymous_when_cached (fst (GetMultiplePrices_store e currency ps (response, w)))"
proof (induction ps arbitrary: response w)
  case Nil
  then show ?case by simp
next
  case (Cons p ps)
  have step: "anonymous_when_cached (response(k \<mapsto> r))" if "\<not> Cached r" for k r
    using Cons.prems that by (auto simp: anonymous_when_cached_def)
  show ?case
    by (simp add: time_Now_def Let_def) (rule Cons.IH, rule step, simp)
qed

lemma check_anonymous:
  assumes "GetMultiplePrices_check e currency ids (Map.empty, [], w) = (response, toFetch, w')"
  shows "anonymous_when_cached response"
  unfolding anonymous_when_cached_def
proof (intro allI impI)
  fix k r
  assume "response k = Some r \<and> Cached r"
  then have "response k = Some r" by simp
  from check_served [OF assms this]
  show "PriceResponse.Symbol r = [] \<and> PriceResponse.Name r = []"
    by (auto simp: from_cache_def)
qed

lemma GetPrice_cached_anonymous:
  assumes "GetPrice e w tokenID currency = (Inr r, w')" and "Cached r"
  shows "PriceResponse.Symbol r = [] \<and> PriceResponse.Name r = []"
  using assms
  by (auto simp: GetPrice_def time_Now_def Let_def
           split: option.splits prod.splits sum.splits bool.splits if_splits)

lemma GetMultiplePrices_cached_anonymous:
  assumes run: "GetMultiplePrices e w tokenIDs currency = (Inr m, w')"
      and entry: "Prices m k = Some r" "Cached r"
  shows "PriceResponse.Symbol r = [] \<and> PriceResponse.Name r = []"
proof -
  obtain response toFetch w1 where
    check: "GetMultiplePrices_check e currency tokenIDs
              (Map.empty, [], w\<lparr>readings := Suc (readings w)\<rparr>) = (response, toFetch, w1)"
    by (cases "GetMultiplePrices_check e currency tokenIDs
              (Map.empty, [], w\<lparr>readings := Suc (readings w)\<rparr>)") auto
  have first: "anonymous_when_cached response"
    by (rule check_anonymous [OF check])
  have "anonymous_when_cached (Prices m)"
    using run first store_anonymous [OF first]
    by (auto simp: GetMultiplePrices_run [OF check] split: if_splits prod.splits sum.splits)
  with entry show ?thesis
    by (auto simp: anonymous_when_cached_def)
qed

text \<open>
  Claim C10. A response of \<^verbatim>\<open>GetPrice\<close> flagged \<^verbatim>\<open>Cached\<close>, and every entry
  flagged \<^verbatim>\<open>Cached\<close> of the map that \<^verbatim>\<open>GetMultiplePrices\<close> returns, has an empty
  \<^verbatim>\<open>Symbol\<close> and an empty \<^verbatim>\<open>Name\<close>: a \<^verbatim>\<open>CachedPrice\<close> has neither field, and
  the responses built from a fetched record are flagged \<^verbatim>\<open>Cached = false\<close>.
\<close>

theorem cached_without_symbol_and_name:
  "(GetPrice e w tokenID currency = (Inr r, w') \<and> Cached r
      \<longrightarrow> PriceResponse.Symbol r = [] \<and> PriceResponse.Name r = [])
 \<and> (GetMultiplePrices e w tokenIDs currency = (Inr m, w'') \<and> Prices m k = Some r' \<and> Cached r'
      \<longrightarrow> PriceResponse.Symbol r' = [] \<and> PriceResponse.Name r' = [])"
  using GetPrice_cached_anonymous [of e w tokenID currency r w']
    GetMultiplePrices_cached_anonymous [of e w tokenIDs currency m w'' k r']
  by blast

theorem cached_without_symbol_and_name_witness:
  "GetPrice upstream_down world0 ''bitcoin'' ''usd''
     = (Inr (from_cache ''bitcoin'' cached_bitcoin), world0\<lparr>readings := Suc 0\<rparr>)
 \<and> Cached (from_cache ''bitcoin'' cached_bitcoin)
 \<and> PriceResponse.Symbol (from_cache ''bitcoin'' cached_bitcoin) = []
 \<and> PriceResponse.Name (from_cache ''bitcoin'' cached_bitcoin) = []"
proof -
  have single: "GetPrice upstream_down world0 ''bitcoin'' ''usd''
     = (Inr (from_cache ''bitcoin'' cached_bitcoin), world0\<lparr>readings := Suc 0\<rparr>)"
    by (simp add: GetPrice_def time_Now_def world0_def upstream_down_def cached_bitcoin_def
          cacheTTL_def from_cache_def)
  have flagged: "Cached (from_cache ''bitcoin'' cached_bitcoin)"
    by (simp add: from_cache_def)
  from cached_without_symbol_and_name
         [where e = upstream_down and w = world0 and tokenID = "''bitcoin''"
            and currency = "''usd''" and r = "from_cache ''bitcoin'' cached_bitcoin"
            and w' = "world0\<lparr>readings := Suc 0\<rparr>", THEN conjunct1]
       single flagged
  show ?thesis by blast
qed

section \<open>The order of the asset list\<close>

lemma inner_step:
  "handleMarkets_sort_inner assets i j =
     (if j < length assets
      then handleMarkets_sort_inner
             (if Score (assets ! j) > Score (assets ! i)
              then assets[i := assets ! j, j := assets ! i]
              else assets) i (Suc j)
      else assets)"
  by (subst handleMarkets_sort_inner.simps) simp

lemma mset_inner [simp]:
  "i < j \<Longrightarrow> mset (handleMarkets_sort_inner assets i j) = mset assets"
proof (induction assets i j rule: handleMarkets_sort_inner.induct)
  case (1 assets i j)
  show ?case
  proof (cases "j < length assets")
    case False
    then show ?thesis by (subst inner_step) simp
  next
    case True
    let ?next = "if Score (assets ! j) > Score (assets ! i)
              then assets[i := assets ! j, j := assets ! i] else assets"
    from True "1.prems" have "mset ?next = mset assets"
      by (simp add: mset_swap)
    moreover from "1.IH" [OF True] "1.prems"
    have "mset (handleMarkets_sort_inner ?next i (Suc j)) = mset ?next" by simp
    ultimately show ?thesis using True by (subst inner_step) simp
  qed
qed

text \<open>
  The inner loop leaves the positions below \<open>i\<close> as they are, and what it leaves at a
  position from \<open>i\<close> on was at a position from \<open>i\<close> on before.
\<close>

lemma inner_below:
  "i < j \<Longrightarrow> k < i \<Longrightarrow> handleMarkets_sort_inner assets i j ! k = assets ! k"
proof (induction assets i j rule: handleMarkets_sort_inner.induct)
  case (1 assets i j)
  show ?case
  proof (cases "j < length assets")
    case False
    then show ?thesis by (subst inner_step) simp
  next
    case True
    let ?next = "if Score (assets ! j) > Score (assets ! i)
              then assets[i := assets ! j, j := assets ! i] else assets"
    from "1.IH" [OF True] "1.prems"
    have "handleMarkets_sort_inner ?next i (Suc j) ! k = ?next ! k" by simp
    moreover from "1.prems" have "?next ! k = assets ! k" by simp
    ultimately show ?thesis using True by (subst inner_step) simp
  qed
qed

lemma inner_from:
  "i < j \<Longrightarrow> i \<le> k \<Longrightarrow> k < length assets
   \<Longrightarrow> \<exists>k'. i \<le> k' \<and> k' < length assets \<and> handleMarkets_sort_inner assets i j ! k = assets ! k'"
proof (induction assets i j arbitrary: k rule: handleMarkets_sort_inner.induct)
  case (1 assets i j)
  show ?case
  proof (cases "j < length assets")
    case False
    with "1.prems" show ?thesis by (subst inner_step) auto
  next
    case True
    let ?next = "if Score (assets ! j) > Score (assets ! i)
              then assets[i := assets ! j, j := assets ! i] else assets"
    have len: "length ?next = length assets" by simp
    from "1.IH" [OF True, of k] "1.prems" len
    obtain k' where k': "i \<le> k'" "k' < length assets"
      "handleMarkets_sort_inner ?next i (Suc j) ! k = ?next ! k'"
      by auto
    have "\<exists>k''. i \<le> k'' \<and> k'' < length assets \<and> ?next ! k' = assets ! k''"
    proof (cases "Score (assets ! j) > Score (assets ! i)")
      case False
      with k' show ?thesis by auto
    next
      case swap: True
      consider "k' = i" | "k' = j" "k' \<noteq> i" | "k' \<noteq> i" "k' \<noteq> j" by blast
      then show ?thesis
      proof cases
        case 1
        with swap True "1.prems" k' show ?thesis
          by (auto simp: nth_list_update intro!: exI [of _ j])
      next
        case 2
        with swap True "1.prems" k' show ?thesis
          by (auto simp: nth_list_update intro!: exI [of _ i])
      next
        case 3
        with swap True "1.prems" k' show ?thesis
          by (auto simp: nth_list_update intro!: exI [of _ k'])
      qed
    qed
    with k' True show ?thesis by (subst inner_step) auto
  qed
qed

lemma inner_max:
  "i < j \<Longrightarrow> (\<forall>k. i < k \<and> k < j \<longrightarrow> Score (assets ! k) \<le> Score (assets ! i))
   \<Longrightarrow> i < k \<Longrightarrow> k < length assets
   \<Longrightarrow> Score (handleMarkets_sort_inner assets i j ! k) \<le> Score (handleMarkets_sort_inner assets i j ! i)"
proof (induction assets i j rule: handleMarkets_sort_inner.induct)
  case (1 assets i j)
  show ?case
  proof (cases "j < length assets")
    case False
    with "1.prems" show ?thesis by (subst (1 2) inner_step) simp
  next
    case True
    let ?next = "if Score (assets ! j) > Score (assets ! i)
              then assets[i := assets ! j, j := assets ! i] else assets"
    have len: "length ?next = length assets" by simp
    have inv: "\<forall>k. i < k \<and> k < j + 1 \<longrightarrow> Score (?next ! k) \<le> Score (?next ! i)"
    proof (intro allI impI)
      fix k assume k: "i < k \<and> k < j + 1"
      show "Score (?next ! k) \<le> Score (?next ! i)"
      proof (cases "k = j")
        case True
        with \<open>j < length assets\<close> "1.prems"(1) show ?thesis
          by (auto simp: nth_list_update)
      next
        case False
        with k have "i < k \<and> k < j" by simp
        with "1.prems"(2) have "Score (assets ! k) \<le> Score (assets ! i)" by blast
        with k False True "1.prems"(1) show ?thesis
          by (auto simp: nth_list_update)
      qed
    qed
    from "1.IH" [OF True _ inv] "1.prems" len
    have "Score (handleMarkets_sort_inner ?next i (Suc j) ! k)
            \<le> Score (handleMarkets_sort_inner ?next i (Suc j) ! i)"
      by simp
    with True show ?thesis by (subst (1 2) inner_step) simp
  qed
qed


lemma sort_step:
  "handleMarkets_sort assets i =
     (if Suc i < length assets
      then handleMarkets_sort (handleMarkets_sort_inner assets i (Suc i)) (Suc i)
      else assets)"
  by (subst handleMarkets_sort.simps) auto

lemma mset_sort: "mset (handleMarkets_sort assets i) = mset assets"
proof (induction assets i rule: handleMarkets_sort.induct)
  case (1 assets i)
  show ?case
  proof (cases "Suc i < length assets")
    case False
    then show ?thesis by (subst sort_step) simp
  next
    case True
    then have "int i < int (length assets) - 1" by simp
    from "1.IH" [OF this] True show ?thesis by (subst sort_step) simp
  qed
qed

lemma sort_descending:
  "(\<forall>a b. a < b \<and> b < length assets \<and> a < i \<longrightarrow> Score (assets ! b) \<le> Score (assets ! a))
   \<Longrightarrow> a < b \<Longrightarrow> b < length assets
   \<Longrightarrow> Score (handleMarkets_sort assets i ! b) \<le> Score (handleMarkets_sort assets i ! a)"
proof (induction assets i rule: handleMarkets_sort.induct)
  case (1 assets i)
  show ?case
  proof (cases "Suc i < length assets")
    case False
    with "1.prems" have "a < i" by simp
    with "1.prems" False show ?thesis by (subst (1 2) sort_step) auto
  next
    case True
    then have cond: "int i < int (length assets) - 1" by simp
    let ?next = "handleMarkets_sort_inner assets i (i + 1)"
    have inv: "\<forall>a b. a < b \<and> b < length ?next \<and> a < i + 1
                 \<longrightarrow> Score (?next ! b) \<le> Score (?next ! a)"
    proof (intro allI impI)
      fix a b assume ab: "a < b \<and> b < length ?next \<and> a < i + 1"
      show "Score (?next ! b) \<le> Score (?next ! a)"
      proof (cases "a < i")
        case below: True
        then have a: "?next ! a = assets ! a" by (simp add: inner_below)
        show ?thesis
        proof (cases "b < i")
          case True
          then have "?next ! b = assets ! b" by (simp add: inner_below)
          with a ab below "1.prems"(1) show ?thesis by simp
        next
          case False
          with ab inner_from [of i "i + 1" b assets]
          obtain k' where "i \<le> k'" "k' < length assets" "?next ! b = assets ! k'"
            by auto
          with a below "1.prems"(1) show ?thesis by simp
        qed
      next
        case False
        with ab have "a = i" by simp
        with ab inner_max [of i "i + 1" assets b] show ?thesis by simp
      qed
    qed
    from "1.IH" [OF cond inv] "1.prems"
    have "Score (handleMarkets_sort ?next (i + 1) ! b) \<le> Score (handleMarkets_sort ?next (i + 1) ! a)"
      by simp
    with True show ?thesis by (subst (1 2) sort_step) simp
  qed
qed

lemma length_sort [simp]: "length (handleMarkets_sort assets i) = length assets"
  using mset_sort [of assets i] by (metis size_mset)

lemma sorted_wrt_sort:
  "sorted_wrt (\<lambda>x y. Score y \<le> Score x) (handleMarkets_sort assets 0)"
  by (simp add: sorted_wrt_iff_nth_less sort_descending)

lemma handleMarkets_build_scores:
  "map (\<lambda>a. (MarketAsset.ID a, Score a))
     (fst (handleMarkets_build rnd ToUpper e ps (assets, w)))
   = map (\<lambda>a. (MarketAsset.ID a, Score a)) assets
     @ map (\<lambda>p. (CoinGeckoPrice.ID p,
                  fst (calculateScore rnd p (stakingDataCache rnd (CoinGeckoPrice.ID p))))) ps"
  by (induction ps arbitrary: assets w)
     (simp_all add: Let_def time_Now_def split: prod.split)

text \<open>
  Claim C8, as amended. The two nested loops exchange \<^verbatim>\<open>assets[i]\<close> with every later
  asset of a strictly greater score. The list \<^verbatim>\<open>handleMarkets\<close> produces is in
  descending order of total score and is a rearrangement of the assets built from the
  fetched records, one per record, each with the total that \<^verbatim>\<open>calculateScore\<close> gives
  its record. The exchanges do not keep assets of equal score in their fetch order.
\<close>

theorem handleMarkets_assets_sorted:
  "sorted_wrt (\<lambda>x y. Score y \<le> Score x)
     (fst (handleMarkets_assets rnd ToUpper e w cgPrices))
 \<and> mset (fst (handleMarkets_assets rnd ToUpper e w cgPrices))
     = mset (fst (handleMarkets_build rnd ToUpper e cgPrices ([], w)))
 \<and> map (\<lambda>a. (MarketAsset.ID a, Score a))
       (fst (handleMarkets_build rnd ToUpper e cgPrices ([], w)))
     = map (\<lambda>p. (CoinGeckoPrice.ID p,
                  fst (calculateScore rnd p (stakingDataCache rnd (CoinGeckoPrice.ID p)))))
         cgPrices"
  by (simp add: handleMarkets_assets_def sorted_wrt_sort mset_sort handleMarkets_build_scores
        split: prod.split)

text \<open>
  The claim as stated (equal scores keep their fetch order) fails on three records
  fetched in the order near, tron, cosmos: near and tron both score 60, cosmos scores 71,
  and the list comes out as cosmos, tron, near.
\<close>

theorem handleMarkets_assets_counterexample:
  "map (\<lambda>a. (MarketAsset.ID a, Score a))
     (fst (handleMarkets_assets Fin ToUpper_ascii upstream_down world0
             [record_near, record_tron, record_cosmos]))
   = [(''cosmos'', 71), (''tron'', 60), (''near'', 60)]"
  by (simp add: handleMarkets_assets_def sort_step inner_step calculateScore_parts
        record_near_def record_tron_def record_cosmos_def CoinGeckoPrice_zero_def
        stakingDataCache_def Let_def market_steps_def staking_steps_def security_steps_def
        adoption_steps_def tech_steps_def f64_ops time_Now_def)

end
